theory Spec2Isabelle
  imports Main
begin

section \<open>Data model of channel.go\<close>

text \<open>
  Go pointers that may be nil are options (\<open>None\<close> is nil) and the pointee is kept by
  value; a slice is an optional list, so that the nil slice (\<open>None\<close>) and the empty
  slice (\<open>Some []\<close>) stay apart, as the nil tests of \<open>updateChannel\<close> need.
  \<open>time.Time\<close> is an instant counted in nanoseconds, its zero value 0.
\<close>

type_synonym Time = int

text \<open>
  \<open>User\<close>, \<open>Message\<close> and \<open>ChannelConfig\<close> are declared in files that are not part of
  the sources at hand. channel.go reads and writes one field of \<open>User\<close>, its ID, so the
  record keeps that field; it never looks inside a \<open>Message\<close> or a \<open>ChannelConfig\<close>,
  which are the type parameters \<open>'msg\<close> and \<open>'cfg\<close>.
\<close>

record User =
  User_ID :: string

record ChannelMember =
  UserID :: string
  User :: "User option"
  IsModerator :: bool
  Invited :: bool
  InviteAcceptedAt :: "Time option"
  InviteRejectedAt :: "Time option"
  Role :: string
  member_CreatedAt :: Time
  member_UpdatedAt :: Time

text \<open>The \<open>RestClient\<close> interface value held by a channel: a handle, or nil.\<close>

type_synonym RestClient = nat

record ('cfg, 'msg) Channel =
  ID :: string
  Type :: string
  CID :: string
  Config :: 'cfg
  CreatedBy :: "User option"
  Frozen :: bool
  MemberCount :: int
  Members :: "ChannelMember option list option"
  Messages :: "'msg option list option"
  Read :: "User option list option"
  CreatedAt :: Time
  UpdatedAt :: Time
  LastMessageAt :: Time
  client :: "RestClient option"

record ('cfg, 'msg) queryResponse =
  q_Channel :: "('cfg, 'msg) Channel option"
  q_Messages :: "'msg option list option"
  q_Members :: "ChannelMember option list option"
  q_Read :: "User option list option"

section \<open>The merge\<close>

text \<open>
  \<open>updateChannel\<close> writes through the pointer \<open>ch\<close>; the model takes the pointee and
  returns the updated one. The struct assignment \<open>*ch = *q.Channel\<close> copies every field
  of the response's channel object, the three lists among them, and the saved client is
  put back afterwards.
\<close>

definition updateChannel ::
  "('cfg, 'msg) queryResponse \<Rightarrow> ('cfg, 'msg) Channel \<Rightarrow> ('cfg, 'msg) Channel" where
  "updateChannel q ch =
     (let ch1 = (case q_Channel q of
                   None \<Rightarrow> ch
                 | Some c \<Rightarrow> c\<lparr>client := client ch\<rparr>);
          ch2 = (if q_Members q \<noteq> None then ch1\<lparr>Members := q_Members q\<rparr> else ch1);
          ch3 = (if q_Messages q \<noteq> None then ch2\<lparr>Messages := q_Messages q\<rparr> else ch2);
          ch4 = (if q_Read q \<noteq> None then ch3\<lparr>Read := q_Read q\<rparr> else ch3)
      in ch4)"

section \<open>Values, maps and the store\<close>

text \<open>
  The values a \<open>map[string]interface{}\<close> holds in channel.go and in its callers. A map
  stored inside another value is kept by value: channel.go writes to no map after it
  has stored it in a payload.
\<close>

datatype Value =
    VNil
  | VBool bool
  | VInt int
  | VString string
  | VStrings "string list"
  | VMap "string \<Rightarrow> Value option"

text \<open>
  A Go map is a reference: a function that writes to a map it was given changes the
  caller's map. The maps that cross a function boundary therefore live in a store, and
  are passed as an address or as nil (\<open>None\<close>). \<open>imaps\<close> holds the
  \<open>map[string]interface{}\<close> objects and \<open>smaps\<close> the \<open>map[string]string\<close> objects;
  \<open>next_ref\<close> is the next unused address. \<open>calls\<close> is the log of the requests handed
  to the transport, oldest first.
\<close>

datatype Method = POST | DELETE

record Call =
  via :: RestClient
  verb :: Method
  path :: string
  params :: "(string \<Rightarrow> string list option) option"
  body :: Value

record World =
  imaps :: "nat \<Rightarrow> (string \<Rightarrow> Value option)"
  smaps :: "nat \<Rightarrow> (string \<Rightarrow> string option)"
  next_ref :: nat
  calls :: "Call list"

text \<open>A map literal or \<open>make\<close>: a new object at the next unused address.\<close>

definition new_imap :: "(string \<Rightarrow> Value option) \<Rightarrow> World \<Rightarrow> nat \<times> World" where
  "new_imap m w = (next_ref w, w\<lparr>imaps := (imaps w)(next_ref w := m), next_ref := Suc (next_ref w)\<rparr>)"

definition new_smap :: "(string \<Rightarrow> string option) \<Rightarrow> World \<Rightarrow> nat \<times> World" where
  "new_smap m w = (next_ref w, w\<lparr>smaps := (smaps w)(next_ref w := m), next_ref := Suc (next_ref w)\<rparr>)"

text \<open>The assignment \<open>m[k] = v\<close> through the reference \<open>r\<close>.\<close>

definition set_imap :: "nat \<Rightarrow> string \<Rightarrow> Value \<Rightarrow> World \<Rightarrow> World" where
  "set_imap r k v w = w\<lparr>imaps := (imaps w)(r := (imaps w r)(k \<mapsto> v))\<rparr>"

definition set_smap :: "nat \<Rightarrow> string \<Rightarrow> string \<Rightarrow> World \<Rightarrow> World" where
  "set_smap r k v w = w\<lparr>smaps := (smaps w)(r := (smaps w r)(k \<mapsto> v))\<rparr>"

text \<open>
  The loop \<open>for k, v := range src { dst[k] = f(v) }\<close>: every key of \<open>src\<close> is written to
  \<open>dst\<close>, the other keys of \<open>dst\<close> stay. The keys of a map are distinct, so the order
  in which Go visits them does not show in the result. Ranging over a nil map visits
  nothing.
\<close>

definition range_assign ::
  "('v \<Rightarrow> 'u) \<Rightarrow> (string \<Rightarrow> 'v option) \<Rightarrow> (string \<Rightarrow> 'u option) \<Rightarrow> (string \<Rightarrow> 'u option)" where
  "range_assign f src dst = dst ++ (\<lambda>k. map_option f (src k))"

section \<open>Errors and the transport\<close>

text \<open>
  \<open>errors_New\<close> is an error made by \<open>errors.New\<close> in channel.go; \<open>RemoteError\<close> stands
  for the errors the transport hands back, which channel.go passes on unread.
\<close>

datatype Error = errors_New string | RemoteError nat

text \<open>
  What channel.go takes from outside: \<open>url.PathEscape\<close>, \<open>path.Join\<close>, the zero value of
  \<open>ChannelConfig\<close>, and the behaviour of the \<open>RestClient\<close>. The transport answers a
  request, given the requests made before it, with an error or with the decoded
  response envelope.
\<close>

record ('cfg, 'msg) Env =
  PathEscape :: "string \<Rightarrow> string"
  PathJoin :: "string list \<Rightarrow> string"
  ZeroConfig :: 'cfg
  Transport :: "Call list \<Rightarrow> Call \<Rightarrow> Error + ('cfg, 'msg) queryResponse"

text \<open>
  \<open>ch.client.Post(path, params, data, result)\<close> and \<open>ch.client.Delete(path, params, result)\<close>.
  A method call on a nil interface value panics: the result \<open>None\<close>. Otherwise the
  request is logged and answered. \<open>Delete\<close> takes no data: its request has the body
  \<open>VNil\<close>, as a \<open>Post\<close> whose data is nil has. The result pointer is left to the
  caller, \<open>return_err\<close> or \<open>return_merged\<close> below.
\<close>

definition client_call ::
  "('cfg, 'msg) Env \<Rightarrow> Method \<Rightarrow> RestClient option \<Rightarrow> string
   \<Rightarrow> (string \<Rightarrow> string list option) option \<Rightarrow> Value \<Rightarrow> World
   \<Rightarrow> ((Error + ('cfg, 'msg) queryResponse) \<times> World) option" where
  "client_call env m cl p ps d w =
     (case cl of
        None \<Rightarrow> None
      | Some h \<Rightarrow>
          (let c = \<lparr>via = h, verb = m, path = p, params = ps, body = d\<rparr>
           in Some (Transport env (calls w) c, w\<lparr>calls := calls w @ [c]\<rparr>)))"

definition client_Post ::
  "('cfg, 'msg) Env \<Rightarrow> RestClient option \<Rightarrow> string
   \<Rightarrow> (string \<Rightarrow> string list option) option \<Rightarrow> Value \<Rightarrow> World
   \<Rightarrow> ((Error + ('cfg, 'msg) queryResponse) \<times> World) option" where
  "client_Post env cl p ps d w = client_call env POST cl p ps d w"

definition client_Delete ::
  "('cfg, 'msg) Env \<Rightarrow> RestClient option \<Rightarrow> string
   \<Rightarrow> (string \<Rightarrow> string list option) option \<Rightarrow> World
   \<Rightarrow> ((Error + ('cfg, 'msg) queryResponse) \<times> World) option" where
  "client_Delete env cl p ps w = client_call env DELETE cl p ps VNil w"

text \<open>
  A call made with a nil result pointer, as in \<open>return ch.client.Post(p, nil, data, nil)\<close>:
  the response body is dropped, the error returned, the channel not touched.
\<close>

definition return_err ::
  "('cfg, 'msg) Channel \<Rightarrow> ((Error + ('cfg, 'msg) queryResponse) \<times> World) option
   \<Rightarrow> (Error option \<times> ('cfg, 'msg) Channel \<times> World) option" where
  "return_err ch r =
     (case r of
        None \<Rightarrow> None
      | Some (Inl err, w) \<Rightarrow> Some (Some err, ch, w)
      | Some (Inr resp, w) \<Rightarrow> Some (None, ch, w))"

text \<open>
  A call made with \<open>&resp\<close>, followed by \<open>if err != nil { return err }\<close>,
  \<open>resp.updateChannel(ch)\<close> and \<open>return nil\<close>.
\<close>

definition return_merged ::
  "('cfg, 'msg) Channel \<Rightarrow> ((Error + ('cfg, 'msg) queryResponse) \<times> World) option
   \<Rightarrow> (Error option \<times> ('cfg, 'msg) Channel \<times> World) option" where
  "return_merged ch r =
     (case r of
        None \<Rightarrow> None
      | Some (Inl err, w) \<Rightarrow> Some (Some err, ch, w)
      | Some (Inr resp, w) \<Rightarrow> Some (None, updateChannel resp ch, w))"

section \<open>The operations\<close>

text \<open>
  Each method of \<open>*Channel\<close> takes the pointee and the world and returns \<open>None\<close> when it
  panics, and otherwise the error (\<open>None\<close> is nil), the pointee and the world after the
  call.
\<close>

record ChannelOptions =
  opt_ID :: string
  opt_Type :: string
  opt_Data :: "nat option"

definition channel_path :: "('cfg, 'msg) Env \<Rightarrow> ('cfg, 'msg) Channel \<Rightarrow> string list \<Rightarrow> string" where
  "channel_path env ch rest =
     PathJoin env ([''channels'', PathEscape env (Type ch), PathEscape env (ID ch)] @ rest)"

definition query ::
  "('cfg, 'msg) Env \<Rightarrow> ('cfg, 'msg) Channel \<Rightarrow> nat option \<Rightarrow> nat option \<Rightarrow> World
   \<Rightarrow> (Error option \<times> ('cfg, 'msg) Channel \<times> World) option" where
  "query env ch options dat w =
     (let payload0 = [''state'' \<mapsto> VBool True];
          payload1 = range_assign id (case options of None \<Rightarrow> Map.empty | Some r \<Rightarrow> imaps w r) payload0;
          (d, w1) = (case dat of None \<Rightarrow> new_imap Map.empty w | Some r \<Rightarrow> (r, w))
      in case CreatedBy ch of
           None \<Rightarrow> None
         | Some u \<Rightarrow>
             (let w2 = set_imap d ''created_by'' (VMap [''id'' \<mapsto> VString (User_ID u)]) w1;
                  payload2 = payload1(''data'' \<mapsto> VMap (imaps w2 d));
                  p = channel_path env ch [''query'']
              in return_merged ch (client_Post env (client ch) p None (VMap payload2) w2)))"

definition Update ::
  "('cfg, 'msg) Env \<Rightarrow> ('cfg, 'msg) Channel \<Rightarrow> nat option \<Rightarrow> string \<Rightarrow> World
   \<Rightarrow> (Error option \<times> ('cfg, 'msg) Channel \<times> World) option" where
  "Update env ch options message w =
     (let payload = [''data'' \<mapsto> (case options of None \<Rightarrow> VNil | Some r \<Rightarrow> VMap (imaps w r)),
                     ''message'' \<mapsto> VString message];
          p = channel_path env ch []
      in return_err ch (client_Post env (client ch) p None (VMap payload) w))"

definition Delete ::
  "('cfg, 'msg) Env \<Rightarrow> ('cfg, 'msg) Channel \<Rightarrow> World
   \<Rightarrow> (Error option \<times> ('cfg, 'msg) Channel \<times> World) option" where
  "Delete env ch w =
     (let p = channel_path env ch []
      in return_err ch (client_Delete env (client ch) p None w))"

definition Truncate ::
  "('cfg, 'msg) Env \<Rightarrow> ('cfg, 'msg) Channel \<Rightarrow> World
   \<Rightarrow> (Error option \<times> ('cfg, 'msg) Channel \<times> World) option" where
  "Truncate env ch w =
     (let p = channel_path env ch [''truncate'']
      in return_err ch (client_Post env (client ch) p None VNil w))"

definition AddMembers ::
  "('cfg, 'msg) Env \<Rightarrow> ('cfg, 'msg) Channel \<Rightarrow> string list \<Rightarrow> World
   \<Rightarrow> (Error option \<times> ('cfg, 'msg) Channel \<times> World) option" where
  "AddMembers env ch userIDs w =
     (if length userIDs = 0 then Some (Some (errors_New ''user IDs are empty''), ch, w)
      else
        (let dat = [''add_members'' \<mapsto> VStrings userIDs];
             p = channel_path env ch []
         in return_err ch (client_Post env (client ch) p None (VMap dat) w)))"

definition RemoveMembers ::
  "('cfg, 'msg) Env \<Rightarrow> ('cfg, 'msg) Channel \<Rightarrow> string list \<Rightarrow> World
   \<Rightarrow> (Error option \<times> ('cfg, 'msg) Channel \<times> World) option" where
  "RemoveMembers env ch userIDs w =
     (if length userIDs = 0 then Some (Some (errors_New ''user IDs are empty''), ch, w)
      else
        (let dat = [''remove_members'' \<mapsto> VStrings userIDs];
             p = channel_path env ch []
         in return_merged ch (client_Post env (client ch) p None (VMap dat) w)))"

definition AddModerators ::
  "('cfg, 'msg) Env \<Rightarrow> ('cfg, 'msg) Channel \<Rightarrow> string list \<Rightarrow> World
   \<Rightarrow> (Error option \<times> ('cfg, 'msg) Channel \<times> World) option" where
  "AddModerators env ch userIDs w =
     (if length userIDs = 0 then Some (Some (errors_New ''user IDs are empty''), ch, w)
      else
        (let dat = [''add_moderators'' \<mapsto> VStrings userIDs];
             p = channel_path env ch []
         in return_err ch (client_Post env (client ch) p None (VMap dat) w)))"

definition DemoteModerators ::
  "('cfg, 'msg) Env \<Rightarrow> ('cfg, 'msg) Channel \<Rightarrow> string list \<Rightarrow> World
   \<Rightarrow> (Error option \<times> ('cfg, 'msg) Channel \<times> World) option" where
  "DemoteModerators env ch userIDs w =
     (if length userIDs = 0 then Some (Some (errors_New ''user IDs are empty''), ch, w)
      else
        (let dat = [''demote_moderators'' \<mapsto> VStrings userIDs];
             p = channel_path env ch []
         in return_err ch (client_Post env (client ch) p None (VMap dat) w)))"

text \<open>
  In \<open>MarkRead\<close>, \<open>BanUser\<close> and \<open>UnBanUser\<close> the parameter \<open>options\<close> is replaced by a new
  map only when it is nil; a map the caller passed is the one written to.
\<close>

definition MarkRead ::
  "('cfg, 'msg) Env \<Rightarrow> ('cfg, 'msg) Channel \<Rightarrow> string \<Rightarrow> nat option \<Rightarrow> World
   \<Rightarrow> (Error option \<times> ('cfg, 'msg) Channel \<times> World) option" where
  "MarkRead env ch userID options w =
     (if userID = [] then Some (Some (errors_New ''user ID must be not empty''), ch, w)
      else
        (let (r, w1) = (case options of None \<Rightarrow> new_imap Map.empty w | Some r \<Rightarrow> (r, w));
             p = channel_path env ch [''read''];
             w2 = set_imap r ''user'' (VMap [''id'' \<mapsto> VString userID]) w1
         in return_err ch (client_Post env (client ch) p None (VMap (imaps w2 r)) w2)))"

definition BanUser ::
  "('cfg, 'msg) Env \<Rightarrow> ('cfg, 'msg) Channel \<Rightarrow> string \<Rightarrow> string \<Rightarrow> nat option \<Rightarrow> World
   \<Rightarrow> (Error option \<times> ('cfg, 'msg) Channel \<times> World) option" where
  "BanUser env ch targetID userID options w =
     (if targetID = [] then Some (Some (errors_New ''target ID is empty''), ch, w)
      else if userID = [] then Some (Some (errors_New ''user ID is empty''), ch, w)
      else
        (let (r, w1) = (case options of None \<Rightarrow> new_imap Map.empty w | Some r \<Rightarrow> (r, w));
             w2 = set_imap r ''type'' (VString (Type ch)) w1;
             w3 = set_imap r ''id'' (VString (ID ch)) w2;
             w4 = set_imap r ''target_user_id'' (VString targetID) w3;
             w5 = set_imap r ''user_id'' (VString userID) w4
         in return_err ch (client_Post env (client ch) ''moderation/ban'' None (VMap (imaps w5 r)) w5)))"

definition UnBanUser ::
  "('cfg, 'msg) Env \<Rightarrow> ('cfg, 'msg) Channel \<Rightarrow> string \<Rightarrow> nat option \<Rightarrow> World
   \<Rightarrow> (Error option \<times> ('cfg, 'msg) Channel \<times> World) option" where
  "UnBanUser env ch targetID options w =
     (if targetID = [] then Some (Some (errors_New ''target ID must be not empty''), ch, w)
      else
        (let (r, w1) = (case options of None \<Rightarrow> new_smap Map.empty w | Some r \<Rightarrow> (r, w));
             w2 = set_smap r ''type'' (Type ch) w1;
             w3 = set_smap r ''id'' (ID ch) w2;
             w4 = set_smap r ''target_user_id'' targetID w3;
             ps = range_assign (\<lambda>v. [v]) (smaps w4 r) Map.empty
         in return_err ch (client_Delete env (client ch) ''moderation/ban'' (Some ps) w4)))"

definition refresh ::
  "('cfg, 'msg) Env \<Rightarrow> ('cfg, 'msg) Channel \<Rightarrow> World
   \<Rightarrow> (Error option \<times> ('cfg, 'msg) Channel \<times> World) option" where
  "refresh env ch w =
     (let (options, w1) =
            new_imap [''watch'' \<mapsto> VBool False, ''state'' \<mapsto> VBool True, ''presence'' \<mapsto> VBool False] w
      in query env ch (Some options) None w1)"

text \<open>
  \<open>CreateChannel\<close> returns a channel pointer and an error. After the three checks it
  returns the channel it built together with whatever \<open>query\<close> returned, also when
  that is an error.
\<close>

definition CreateChannel ::
  "('cfg, 'msg) Env \<Rightarrow> RestClient option \<Rightarrow> ChannelOptions \<Rightarrow> string \<Rightarrow> World
   \<Rightarrow> (('cfg, 'msg) Channel option \<times> Error option \<times> World) option" where
  "CreateChannel env cl options userID w =
     (if opt_Type options = [] then Some (None, Some (errors_New ''channel type is empty''), w)
      else if opt_ID options = [] then Some (None, Some (errors_New ''channel ID is empty''), w)
      else if userID = [] then Some (None, Some (errors_New ''user ID is empty''), w)
      else
        (let ch = \<lparr>ID = opt_ID options, Type = opt_Type options, CID = [],
                   Config = ZeroConfig env, CreatedBy = Some \<lparr>User_ID = userID\<rparr>,
                   Frozen = False, MemberCount = 0, Members = None, Messages = None,
                   Read = None, CreatedAt = 0, UpdatedAt = 0, LastMessageAt = 0,
                   client = cl\<rparr>;
             (args, w1) =
               new_imap [''watch'' \<mapsto> VBool False, ''state'' \<mapsto> VBool True, ''presence'' \<mapsto> VBool False] w
         in case query env ch (Some args) (opt_Data options) w1 of
              None \<Rightarrow> None
            | Some (err, ch', w2) \<Rightarrow> Some (Some ch', err, w2)))"

section \<open>Sample values\<close>

text \<open>
  Concrete inputs on which the operations are evaluated. In \<open>sample_env\<close> the path is
  built as \<open>path.Join\<close> and \<open>url.PathEscape\<close> build it for segments that are not empty
  and hold letters only: the segments as they are, with a slash between them.
\<close>

definition join_slash :: "string list \<Rightarrow> string" where
  "join_slash xs = foldr (\<lambda>x acc. if acc = [] then x else x @ ''/'' @ acc) xs []"

definition sample_env ::
  "(Call list \<Rightarrow> Call \<Rightarrow> Error + (unit, string) queryResponse) \<Rightarrow> (unit, string) Env" where
  "sample_env t = \<lparr>PathEscape = (\<lambda>s. s), PathJoin = join_slash, ZeroConfig = (), Transport = t\<rparr>"

definition sample_member :: ChannelMember where
  "sample_member = \<lparr>UserID = ''alice'', User = Some \<lparr>User_ID = ''alice''\<rparr>, IsModerator = False,
     Invited = False, InviteAcceptedAt = None, InviteRejectedAt = None, Role = ''member'',
     member_CreatedAt = 10, member_UpdatedAt = 10\<rparr>"

definition sample_channel :: "(unit, string) Channel" where
  "sample_channel = \<lparr>ID = ''general'', Type = ''messaging'', CID = ''messaging:general'',
     Config = (), CreatedBy = Some \<lparr>User_ID = ''admin''\<rparr>, Frozen = False, MemberCount = 1,
     Members = Some [Some sample_member], Messages = Some [Some ''hello''],
     Read = Some [Some \<lparr>User_ID = ''alice''\<rparr>], CreatedAt = 10, UpdatedAt = 20,
     LastMessageAt = 20, client = Some 7\<rparr>"

text \<open>
  A channel object as a response carries it: no lists, no creator, and the client
  field, which is not part of the JSON, nil.
\<close>

definition sample_snapshot :: "(unit, string) Channel" where
  "sample_snapshot = \<lparr>ID = ''general'', Type = ''messaging'', CID = ''messaging:general'',
     Config = (), CreatedBy = None, Frozen = True, MemberCount = 0,
     Members = None, Messages = None, Read = None, CreatedAt = 10, UpdatedAt = 30,
     LastMessageAt = 20, client = None\<rparr>"

definition sample_world :: World where
  "sample_world = \<lparr>imaps = (\<lambda>r. Map.empty), smaps = (\<lambda>r. Map.empty), next_ref = 0, calls = []\<rparr>"

text \<open>
  Response envelopes, and worlds in which the caller already holds maps: in
  \<open>members_world\<close> the extra data of a channel to create, with a \<open>members\<close> entry, at
  address 0; in \<open>ban_world\<close> a \<open>map[string]interface{}\<close> of options at address 0 and a
  \<open>map[string]string\<close> at address 1, each with an entry of its own under \<open>type\<close>.
\<close>

definition sample_envelope :: "(unit, string) queryResponse" where
  "sample_envelope = \<lparr>q_Channel = Some sample_snapshot, q_Messages = Some [],
     q_Members = Some [], q_Read = Some []\<rparr>"

definition existing_envelope :: "(unit, string) queryResponse" where
  "existing_envelope = \<lparr>q_Channel = Some (sample_snapshot\<lparr>MemberCount := 2\<rparr>), q_Messages = Some [],
     q_Members = Some [Some sample_member, Some (sample_member\<lparr>UserID := ''bob''\<rparr>)],
     q_Read = Some []\<rparr>"


definition ban_world :: World where
  "ban_world = \<lparr>imaps = (\<lambda>r. Map.empty)(0 := [''timeout'' \<mapsto> VInt 3600, ''type'' \<mapsto> VString ''team'']),
     smaps = (\<lambda>r. Map.empty)(1 := [''type'' \<mapsto> ''team'']), next_ref = 2, calls = []\<rparr>"

section \<open>What a call leaves and what it sends\<close>

text \<open>
  \<open>keeps_handle\<close>: the call returned, and the channel after it is the channel before it,
  with the same Members, Messages and Read.
\<close>

definition keeps_handle ::
  "('cfg, 'msg) Channel \<Rightarrow> (Error option \<times> ('cfg, 'msg) Channel \<times> World) option \<Rightarrow> bool" where
  "keeps_handle ch res =
     (case res of
        None \<Rightarrow> False
      | Some (e, ch', w') \<Rightarrow>
          ch' = ch \<and> Members ch' = Members ch \<and> Messages ch' = Messages ch \<and> Read ch' = Read ch)"

text \<open>
  \<open>call_answered\<close>: between the worlds \<open>w\<close> and \<open>w'\<close> exactly one request \<open>c\<close> went to the
  transport, which answered it with \<open>ans\<close>.
\<close>

definition call_answered ::
  "('cfg, 'msg) Env \<Rightarrow> World \<Rightarrow> World \<Rightarrow> Call \<Rightarrow> Error + ('cfg, 'msg) queryResponse \<Rightarrow> bool" where
  "call_answered env w w' c ans \<longleftrightarrow> calls w' = calls w @ [c] \<and> Transport env (calls w) c = ans"

text \<open>
  \<open>keeps_on_failure\<close>: if the call returned after one request that the transport
  answered with the error \<open>e\<close>, then the channel is unchanged and \<open>e\<close> is the error
  returned.
\<close>

definition keeps_on_failure ::
  "('cfg, 'msg) Env \<Rightarrow> ('cfg, 'msg) Channel \<Rightarrow> World
   \<Rightarrow> (Error option \<times> ('cfg, 'msg) Channel \<times> World) option \<Rightarrow> Call \<Rightarrow> Error \<Rightarrow> bool" where
  "keeps_on_failure env ch w res c e =
     (case res of
        None \<Rightarrow> True
      | Some (r, ch', w') \<Rightarrow> call_answered env w w' c (Inl e) \<longrightarrow> ch' = ch \<and> r = Some e)"

text \<open>\<open>sent\<close>: the call returned, and \<open>c\<close> is the one request it made.\<close>

definition sent ::
  "World \<Rightarrow> (Error option \<times> ('cfg, 'msg) Channel \<times> World) option \<Rightarrow> Call \<Rightarrow> bool" where
  "sent w res c = (case res of None \<Rightarrow> False | Some (e, ch', w') \<Rightarrow> calls w' = calls w @ [c])"

text \<open>The contents of the caller's map at address \<open>r\<close> when the call has returned.\<close>

definition imap_after ::
  "nat \<Rightarrow> (Error option \<times> ('cfg, 'msg) Channel \<times> World) option \<Rightarrow> (string \<Rightarrow> Value option) option" where
  "imap_after r res = map_option (\<lambda>(e, ch', w'). imaps w' r) res"

definition smap_after ::
  "nat \<Rightarrow> (Error option \<times> ('cfg, 'msg) Channel \<times> World) option \<Rightarrow> (string \<Rightarrow> string option) option" where
  "smap_after r res = map_option (\<lambda>(e, ch', w'). smaps w' r) res"

lemmas eval_defs = sample_env_def sample_channel_def sample_world_def sample_snapshot_def
  sample_envelope_def existing_envelope_def ban_world_def join_slash_def channel_path_def
  client_Post_def client_Delete_def client_call_def return_err_def return_merged_def
  new_imap_def new_smap_def set_imap_def set_smap_def range_assign_def updateChannel_def Let_def

section \<open>Properties of the merge\<close>

text \<open>
  C2. When the response carries a channel object, the merged channel keeps the client
  of the previous channel, and its ID, Type, CID, Config, CreatedBy, Frozen, MemberCount
  and its three timestamps are those of the response's channel object.
\<close>

theorem updateChannel_metadata:
  assumes "q_Channel q = Some c"
  shows "client (updateChannel q ch) = client ch
       \<and> ID (updateChannel q ch) = ID c
       \<and> Type (updateChannel q ch) = Type c
       \<and> CID (updateChannel q ch) = CID c
       \<and> Config (updateChannel q ch) = Config c
       \<and> CreatedBy (updateChannel q ch) = CreatedBy c
       \<and> Frozen (updateChannel q ch) = Frozen c
       \<and> MemberCount (updateChannel q ch) = MemberCount c
       \<and> CreatedAt (updateChannel q ch) = CreatedAt c
       \<and> UpdatedAt (updateChannel q ch) = UpdatedAt c
       \<and> LastMessageAt (updateChannel q ch) = LastMessageAt c"
  using assms by (simp add: updateChannel_def Let_def)

theorem updateChannel_metadata_witness:
  "client (updateChannel \<lparr>q_Channel = Some sample_snapshot, q_Messages = None, q_Members = None, q_Read = None\<rparr> sample_channel) = Some 7
   \<and> Frozen (updateChannel \<lparr>q_Channel = Some sample_snapshot, q_Messages = None, q_Members = None, q_Read = None\<rparr> sample_channel) = True
   \<and> UpdatedAt (updateChannel \<lparr>q_Channel = Some sample_snapshot, q_Messages = None, q_Members = None, q_Read = None\<rparr> sample_channel) = 30"
  using updateChannel_metadata [of "\<lparr>q_Channel = Some sample_snapshot, q_Messages = None, q_Members = None, q_Read = None\<rparr>" sample_snapshot sample_channel]
  by (simp add: sample_channel_def sample_snapshot_def)

text \<open>
  C1, as the code has it. For a response with members present and messages and read
  absent, the merged Messages and Read are the previous ones when the response has no
  channel object; when it has one, they are the Messages and Read of that channel
  object, because the struct assignment has copied them before the nil tests run.
\<close>

theorem updateChannel_absent_lists:
  assumes "q_Members q \<noteq> None" and "q_Messages q = None" and "q_Read q = None"
  shows "Messages (updateChannel q ch) = (case q_Channel q of None \<Rightarrow> Messages ch | Some c \<Rightarrow> Messages c)
       \<and> Read (updateChannel q ch) = (case q_Channel q of None \<Rightarrow> Read ch | Some c \<Rightarrow> Read c)"
  using assms by (simp add: updateChannel_def Let_def split: option.splits)

theorem updateChannel_absent_lists_witness:
  "Messages (updateChannel \<lparr>q_Channel = None, q_Messages = None, q_Members = Some [], q_Read = None\<rparr> sample_channel)
     = Some [Some ''hello'']
   \<and> Read (updateChannel \<lparr>q_Channel = Some sample_snapshot, q_Messages = None, q_Members = Some [], q_Read = None\<rparr> sample_channel)
     = None"
  using updateChannel_absent_lists [of "\<lparr>q_Channel = None, q_Messages = None, q_Members = Some [], q_Read = None\<rparr>" sample_channel]
    updateChannel_absent_lists [of "\<lparr>q_Channel = Some sample_snapshot, q_Messages = None, q_Members = Some [], q_Read = None\<rparr>" sample_channel]
  by (simp add: sample_channel_def sample_snapshot_def)

text \<open>
  C1 as stated fails when the response also carries a channel object: the envelope
  below has members present, messages and read absent, and the merge replaces the
  cached Messages and Read by the nil lists of the channel object.
\<close>

theorem updateChannel_absent_lists_counterexample:
  "q_Members \<lparr>q_Channel = Some sample_snapshot, q_Messages = None, q_Members = Some [], q_Read = None\<rparr> \<noteq> None
   \<and> q_Messages \<lparr>q_Channel = Some sample_snapshot, q_Messages = None, q_Members = Some [], q_Read = None\<rparr> = None
   \<and> q_Read \<lparr>q_Channel = Some sample_snapshot, q_Messages = None, q_Members = Some [], q_Read = None\<rparr> = None
   \<and> Messages (updateChannel \<lparr>q_Channel = Some sample_snapshot, q_Messages = None, q_Members = Some [], q_Read = None\<rparr> sample_channel)
       \<noteq> Messages sample_channel
   \<and> Read (updateChannel \<lparr>q_Channel = Some sample_snapshot, q_Messages = None, q_Members = Some [], q_Read = None\<rparr> sample_channel)
       \<noteq> Read sample_channel"
  by (simp add: updateChannel_def sample_snapshot_def sample_channel_def)

text \<open>
  C7. When the response carries no channel object, every metadata field and the
  client of the previous channel are unchanged, and each of Members, Messages and Read
  is the response's list when that is non-nil and the previous list otherwise.
\<close>

theorem updateChannel_nil_channel:
  assumes "q_Channel q = None"
  shows "ID (updateChannel q ch) = ID ch
       \<and> Type (updateChannel q ch) = Type ch
       \<and> CID (updateChannel q ch) = CID ch
       \<and> Config (updateChannel q ch) = Config ch
       \<and> CreatedBy (updateChannel q ch) = CreatedBy ch
       \<and> Frozen (updateChannel q ch) = Frozen ch
       \<and> MemberCount (updateChannel q ch) = MemberCount ch
       \<and> CreatedAt (updateChannel q ch) = CreatedAt ch
       \<and> UpdatedAt (updateChannel q ch) = UpdatedAt ch
       \<and> LastMessageAt (updateChannel q ch) = LastMessageAt ch
       \<and> client (updateChannel q ch) = client ch
       \<and> Members (updateChannel q ch) = (if q_Members q \<noteq> None then q_Members q else Members ch)
       \<and> Messages (updateChannel q ch) = (if q_Messages q \<noteq> None then q_Messages q else Messages ch)
       \<and> Read (updateChannel q ch) = (if q_Read q \<noteq> None then q_Read q else Read ch)"
  using assms by (simp add: updateChannel_def Let_def)

theorem updateChannel_nil_channel_witness:
  "updateChannel \<lparr>q_Channel = None, q_Messages = Some [], q_Members = None, q_Read = None\<rparr> sample_channel
     = sample_channel\<lparr>Messages := Some []\<rparr>"
  using updateChannel_nil_channel [of "\<lparr>q_Channel = None, q_Messages = Some [], q_Members = None, q_Read = None\<rparr>" sample_channel]
  by (simp add: sample_channel_def updateChannel_def)


section \<open>Properties of the operations\<close>

text \<open>
  C5. With an empty list of user IDs, AddMembers, RemoveMembers, AddModerators and
  DemoteModerators return the error "user IDs are empty"; the channel is the one passed
  in and the world is the one before the call, so no request went to the transport
  and no map was written. This holds for every channel, a nil client included.
\<close>

theorem empty_userIDs_rejected:
  "AddMembers env ch [] w = Some (Some (errors_New ''user IDs are empty''), ch, w)
   \<and> RemoveMembers env ch [] w = Some (Some (errors_New ''user IDs are empty''), ch, w)
   \<and> AddModerators env ch [] w = Some (Some (errors_New ''user IDs are empty''), ch, w)
   \<and> DemoteModerators env ch [] w = Some (Some (errors_New ''user IDs are empty''), ch, w)"
  by (simp add: AddMembers_def RemoveMembers_def AddModerators_def DemoteModerators_def)

theorem empty_userIDs_rejected_witness:
  "AddMembers (sample_env (\<lambda>cs c. Inr existing_envelope)) sample_channel [] sample_world
     = Some (Some (errors_New ''user IDs are empty''), sample_channel, sample_world)
   \<and> RemoveMembers (sample_env (\<lambda>cs c. Inr existing_envelope)) sample_channel [] sample_world
     = Some (Some (errors_New ''user IDs are empty''), sample_channel, sample_world)
   \<and> calls sample_world = []"
  using empty_userIDs_rejected [of "sample_env (\<lambda>cs c. Inr existing_envelope)" sample_channel sample_world]
  by (simp add: sample_world_def)

lemma return_err_keeps: "keeps_handle ch (return_err ch (client_call env m (Some h) p ps d w))"
  by (simp add: keeps_handle_def return_err_def client_call_def Let_def split: sum.splits)

text \<open>
  C4. Update, AddModerators, DemoteModerators, MarkRead, BanUser and UnBanUser, called on
  a channel with a client, return with the channel unchanged, so with the same Members,
  Messages and Read. This holds for every argument and every answer of the transport,
  also an answer that carries a snapshot: none of them runs the merge.
\<close>

theorem no_merge_operations_keep_handle:
  assumes "client ch = Some h"
  shows "keeps_handle ch (Update env ch options message w)
       \<and> keeps_handle ch (AddModerators env ch userIDs w)
       \<and> keeps_handle ch (DemoteModerators env ch userIDs w)
       \<and> keeps_handle ch (MarkRead env ch userID options w)
       \<and> keeps_handle ch (BanUser env ch targetID userID options w)
       \<and> keeps_handle ch (UnBanUser env ch targetID soptions w)"
proof -
  have validation: "keeps_handle ch (Some (Some e, ch, w))" for e
    by (simp add: keeps_handle_def)
  have "keeps_handle ch (Update env ch options message w)"
    using assms by (simp add: Update_def Let_def client_Post_def return_err_keeps)
  moreover have "keeps_handle ch (AddModerators env ch userIDs w)"
    using assms by (simp add: AddModerators_def Let_def client_Post_def return_err_keeps validation)
  moreover have "keeps_handle ch (DemoteModerators env ch userIDs w)"
    using assms by (simp add: DemoteModerators_def Let_def client_Post_def return_err_keeps validation)
  moreover have "keeps_handle ch (MarkRead env ch userID options w)"
    using assms
    by (simp add: MarkRead_def Let_def client_Post_def return_err_keeps validation split: prod.splits)
  moreover have "keeps_handle ch (BanUser env ch targetID userID options w)"
    using assms
    by (simp add: BanUser_def Let_def client_Post_def return_err_keeps validation split: prod.splits)
  moreover have "keeps_handle ch (UnBanUser env ch targetID soptions w)"
    using assms
    by (simp add: UnBanUser_def Let_def client_Delete_def return_err_keeps validation split: prod.splits)
  ultimately show ?thesis by simp
qed

theorem no_merge_operations_keep_handle_witness:
  "client sample_channel = Some 7
   \<and> keeps_handle sample_channel
        (Update (sample_env (\<lambda>cs c. Inr existing_envelope)) sample_channel (Some 0) ''renamed'' ban_world)
   \<and> keeps_handle sample_channel
        (AddModerators (sample_env (\<lambda>cs c. Inr existing_envelope)) sample_channel [''bob''] ban_world)
   \<and> keeps_handle sample_channel
        (DemoteModerators (sample_env (\<lambda>cs c. Inr existing_envelope)) sample_channel [''bob''] ban_world)
   \<and> keeps_handle sample_channel
        (MarkRead (sample_env (\<lambda>cs c. Inr existing_envelope)) sample_channel ''alice'' (Some 0) ban_world)
   \<and> keeps_handle sample_channel
        (BanUser (sample_env (\<lambda>cs c. Inr existing_envelope)) sample_channel ''bob'' ''admin'' (Some 0) ban_world)
   \<and> keeps_handle sample_channel
        (UnBanUser (sample_env (\<lambda>cs c. Inr existing_envelope)) sample_channel ''bob'' (Some 1) ban_world)
   \<and> map_option fst (BanUser (sample_env (\<lambda>cs c. Inr existing_envelope)) sample_channel ''bob'' ''admin'' (Some 0) ban_world)
       = Some None
   \<and> map_option fst (AddModerators (sample_env (\<lambda>cs c. Inr existing_envelope)) sample_channel [''bob''] ban_world)
       = Some None"
proof -
  have h: "client sample_channel = Some 7"
    by (simp add: sample_channel_def)
  have ok1: "map_option fst (BanUser (sample_env (\<lambda>cs c. Inr existing_envelope)) sample_channel ''bob'' ''admin'' (Some 0) ban_world)
       = Some None"
    by (simp add: BanUser_def eval_defs)
  have ok2: "map_option fst (AddModerators (sample_env (\<lambda>cs c. Inr existing_envelope)) sample_channel [''bob''] ban_world)
       = Some None"
    by (simp add: AddModerators_def eval_defs)
  show ?thesis
    using h ok1 ok2
      no_merge_operations_keep_handle [OF h, where env = "sample_env (\<lambda>cs c. Inr existing_envelope)"
        and options = "Some 0" and message = "''renamed''" and w = ban_world
        and userIDs = "[''bob'']" and userID = "''alice''" and targetID = "''bob''"
        and soptions = "Some 1"]
      no_merge_operations_keep_handle [OF h, where env = "sample_env (\<lambda>cs c. Inr existing_envelope)"
        and options = "Some 0" and w = ban_world
        and userID = "''admin''" and targetID = "''bob''"]
    by simp
qed

lemma return_err_failure:
  "calls w0 = calls w \<Longrightarrow> keeps_on_failure env ch w (return_err ch (client_call env m cl p ps d w0)) c e"
  by (auto simp: keeps_on_failure_def call_answered_def return_err_def client_call_def Let_def
      split: option.splits sum.splits)

lemma return_merged_failure:
  "calls w0 = calls w \<Longrightarrow> keeps_on_failure env ch w (return_merged ch (client_call env m cl p ps d w0)) c e"
  by (auto simp: keeps_on_failure_def call_answered_def return_merged_def client_call_def Let_def
      split: option.splits sum.splits)

lemma validation_failure: "keeps_on_failure env ch w (Some (Some e', ch, w)) c e"
  by (simp add: keeps_on_failure_def call_answered_def)

lemma panic_failure: "keeps_on_failure env ch w None c e"
  by (simp add: keeps_on_failure_def)

lemma query_failure:
  "calls w0 = calls w \<Longrightarrow> keeps_on_failure env ch w (query env ch options dat w0) c e"
  by (simp add: query_def Let_def client_Post_def return_merged_failure panic_failure
      new_imap_def set_imap_def split: option.splits prod.splits)

text \<open>
  C6. For each method of the channel: when the method returns after a request that the
  transport answered with an error, the channel after the call is the channel before
  it and the error returned is the transport's. For \<open>query\<close>, \<open>refresh\<close> and
  \<open>RemoveMembers\<close>, the three that merge, this says that the merge runs only on a
  successful response.
\<close>

theorem failed_call_keeps_channel:
  "keeps_on_failure env ch w (query env ch options dat w) c e
   \<and> keeps_on_failure env ch w (refresh env ch w) c e
   \<and> keeps_on_failure env ch w (RemoveMembers env ch userIDs w) c e
   \<and> keeps_on_failure env ch w (AddMembers env ch userIDs w) c e
   \<and> keeps_on_failure env ch w (AddModerators env ch userIDs w) c e
   \<and> keeps_on_failure env ch w (DemoteModerators env ch userIDs w) c e
   \<and> keeps_on_failure env ch w (Update env ch options message w) c e
   \<and> keeps_on_failure env ch w (Delete env ch w) c e
   \<and> keeps_on_failure env ch w (Truncate env ch w) c e
   \<and> keeps_on_failure env ch w (MarkRead env ch userID options w) c e
   \<and> keeps_on_failure env ch w (BanUser env ch targetID userID options w) c e
   \<and> keeps_on_failure env ch w (UnBanUser env ch targetID soptions w) c e"
proof -
  have "keeps_on_failure env ch w (query env ch options dat w) c e"
    by (simp add: query_failure)
  moreover have "keeps_on_failure env ch w (refresh env ch w) c e"
    by (simp add: refresh_def new_imap_def query_failure)
  moreover have "keeps_on_failure env ch w (RemoveMembers env ch userIDs w) c e"
    by (simp add: RemoveMembers_def Let_def client_Post_def return_merged_failure validation_failure)
  moreover have "keeps_on_failure env ch w (AddMembers env ch userIDs w) c e"
    by (simp add: AddMembers_def Let_def client_Post_def return_err_failure validation_failure)
  moreover have "keeps_on_failure env ch w (AddModerators env ch userIDs w) c e"
    by (simp add: AddModerators_def Let_def client_Post_def return_err_failure validation_failure)
  moreover have "keeps_on_failure env ch w (DemoteModerators env ch userIDs w) c e"
    by (simp add: DemoteModerators_def Let_def client_Post_def return_err_failure validation_failure)
  moreover have "keeps_on_failure env ch w (Update env ch options message w) c e"
    by (simp add: Update_def Let_def client_Post_def return_err_failure)
  moreover have "keeps_on_failure env ch w (Delete env ch w) c e"
    by (simp add: Delete_def Let_def client_Delete_def return_err_failure)
  moreover have "keeps_on_failure env ch w (Truncate env ch w) c e"
    by (simp add: Truncate_def Let_def client_Post_def return_err_failure)
  moreover have "keeps_on_failure env ch w (MarkRead env ch userID options w) c e"
    by (simp add: MarkRead_def Let_def client_Post_def return_err_failure validation_failure
        new_imap_def set_imap_def split: option.splits prod.splits)
  moreover have "keeps_on_failure env ch w (BanUser env ch targetID userID options w) c e"
    by (simp add: BanUser_def Let_def client_Post_def return_err_failure validation_failure
        new_imap_def set_imap_def split: option.splits prod.splits)
  moreover have "keeps_on_failure env ch w (UnBanUser env ch targetID soptions w) c e"
    by (simp add: UnBanUser_def Let_def client_Delete_def return_err_failure validation_failure
        new_smap_def set_smap_def split: option.splits prod.splits)
  ultimately show ?thesis by simp
qed

theorem failed_call_keeps_channel_witness:
  "(case query (sample_env (\<lambda>cs c. Inl (RemoteError 503))) sample_channel None None sample_world of
      None \<Rightarrow> False
    | Some (r, ch', w') \<Rightarrow>
        call_answered (sample_env (\<lambda>cs c. Inl (RemoteError 503))) sample_world w' (last (calls w'))
          (Inl (RemoteError 503))
        \<and> path (last (calls w')) = ''channels/messaging/general/query''
        \<and> r = Some (RemoteError 503) \<and> ch' = sample_channel)
   \<and> (case RemoveMembers (sample_env (\<lambda>cs c. Inl (RemoteError 503))) sample_channel [''alice''] sample_world of
      None \<Rightarrow> False
    | Some (r, ch', w') \<Rightarrow>
        call_answered (sample_env (\<lambda>cs c. Inl (RemoteError 503))) sample_world w' (last (calls w'))
          (Inl (RemoteError 503))
        \<and> path (last (calls w')) = ''channels/messaging/general''
        \<and> r = Some (RemoteError 503) \<and> ch' = sample_channel)"
proof -
  let ?E = "sample_env (\<lambda>cs c. Inl (RemoteError 503))"
  obtain r ch' w' where q: "query ?E sample_channel None None sample_world = Some (r, ch', w')"
    and qa: "call_answered ?E sample_world w' (last (calls w')) (Inl (RemoteError 503))"
    and qp: "path (last (calls w')) = ''channels/messaging/general/query''"
    by (simp add: query_def call_answered_def eval_defs)
  obtain r2 ch2 w2 where m: "RemoveMembers ?E sample_channel [''alice''] sample_world = Some (r2, ch2, w2)"
    and ma: "call_answered ?E sample_world w2 (last (calls w2)) (Inl (RemoteError 503))"
    and mp: "path (last (calls w2)) = ''channels/messaging/general''"
    by (simp add: RemoveMembers_def call_answered_def eval_defs)
  have "ch' = sample_channel \<and> r = Some (RemoteError 503)"
    using failed_call_keeps_channel [of ?E sample_channel sample_world None None "last (calls w')" "RemoteError 503"]
      q qa
    by (simp add: keeps_on_failure_def)
  moreover have "ch2 = sample_channel \<and> r2 = Some (RemoteError 503)"
    using failed_call_keeps_channel [where env = ?E and ch = sample_channel and w = sample_world
        and userIDs = "[''alice'']" and c = "last (calls w2)" and e = "RemoteError 503"]
      m ma
    by (simp add: keeps_on_failure_def)
  ultimately show ?thesis
    using q qa qp m ma mp by simp
qed

lemma sent_return_err:
  "calls w0 = calls w \<Longrightarrow>
   sent w (return_err ch (client_call env m (Some h) p ps d w0)) c
     \<longleftrightarrow> c = \<lparr>via = h, verb = m, path = p, params = ps, body = d\<rparr>"
  by (auto simp: sent_def return_err_def client_call_def Let_def split: sum.splits)

text \<open>
  C8. With non-empty IDs and a client, BanUser makes one POST to \<open>moderation/ban\<close> with no
  query parameters, whose body is the caller's options with \<open>type\<close>, \<open>id\<close>,
  \<open>target_user_id\<close> and \<open>user_id\<close> set at the top level to the channel's type and ID and
  the two user IDs. UnBanUser makes one DELETE to \<open>moderation/ban\<close> with a nil body, whose
  query parameters are the caller's options with \<open>type\<close>, \<open>id\<close> and \<open>target_user_id\<close> set,
  each value as a one-element list.
\<close>

theorem ban_unban_requests:
  assumes "targetID \<noteq> []" and "userID \<noteq> []" and "client ch = Some h"
  shows "sent w (BanUser env ch targetID userID options w)
           \<lparr>via = h, verb = POST, path = ''moderation/ban'', params = None,
            body = VMap ((case options of None \<Rightarrow> Map.empty | Some r \<Rightarrow> imaps w r)
                      (''type'' \<mapsto> VString (Type ch), ''id'' \<mapsto> VString (ID ch),
                       ''target_user_id'' \<mapsto> VString targetID, ''user_id'' \<mapsto> VString userID))\<rparr>
       \<and> sent w (UnBanUser env ch targetID soptions w)
           \<lparr>via = h, verb = DELETE, path = ''moderation/ban'',
            params = Some (\<lambda>k. map_option (\<lambda>v. [v])
                      (((case soptions of None \<Rightarrow> Map.empty | Some r \<Rightarrow> smaps w r)
                        (''type'' \<mapsto> Type ch, ''id'' \<mapsto> ID ch, ''target_user_id'' \<mapsto> targetID)) k)),
            body = VNil\<rparr>"
proof -
  have ban: "sent w (BanUser env ch targetID userID options w)
           \<lparr>via = h, verb = POST, path = ''moderation/ban'', params = None,
            body = VMap ((case options of None \<Rightarrow> Map.empty | Some r \<Rightarrow> imaps w r)
                      (''type'' \<mapsto> VString (Type ch), ''id'' \<mapsto> VString (ID ch),
                       ''target_user_id'' \<mapsto> VString targetID, ''user_id'' \<mapsto> VString userID))\<rparr>"
  proof (cases options)
    case None
    with assms show ?thesis
      by (simp add: BanUser_def Let_def client_Post_def new_imap_def set_imap_def sent_return_err
          fun_upd_same del: fun_upd_apply)
  next
    case (Some r)
    with assms show ?thesis
      by (simp add: BanUser_def Let_def client_Post_def set_imap_def sent_return_err
          fun_upd_same del: fun_upd_apply)
  qed
  have unban: "sent w (UnBanUser env ch targetID soptions w)
           \<lparr>via = h, verb = DELETE, path = ''moderation/ban'',
            params = Some (\<lambda>k. map_option (\<lambda>v. [v])
                      (((case soptions of None \<Rightarrow> Map.empty | Some r \<Rightarrow> smaps w r)
                        (''type'' \<mapsto> Type ch, ''id'' \<mapsto> ID ch, ''target_user_id'' \<mapsto> targetID)) k)),
            body = VNil\<rparr>"
  proof (cases soptions)
    case None
    with assms show ?thesis
      by (simp add: UnBanUser_def Let_def client_Delete_def new_smap_def set_smap_def
          range_assign_def sent_return_err fun_upd_same del: fun_upd_apply)
  next
    case (Some r)
    with assms show ?thesis
      by (simp add: UnBanUser_def Let_def client_Delete_def set_smap_def range_assign_def
          sent_return_err fun_upd_same del: fun_upd_apply)
  qed
  from ban unban show ?thesis by simp
qed

theorem ban_unban_requests_witness:
  "sent ban_world
     (BanUser (sample_env (\<lambda>cs c. Inr existing_envelope)) sample_channel ''bob'' ''admin'' (Some 0) ban_world)
     \<lparr>via = 7, verb = POST, path = ''moderation/ban'', params = None,
      body = VMap ([''timeout'' \<mapsto> VInt 3600, ''type'' \<mapsto> VString ''team'']
                (''type'' \<mapsto> VString ''messaging'', ''id'' \<mapsto> VString ''general'',
                 ''target_user_id'' \<mapsto> VString ''bob'', ''user_id'' \<mapsto> VString ''admin''))\<rparr>
   \<and> sent ban_world
     (UnBanUser (sample_env (\<lambda>cs c. Inr existing_envelope)) sample_channel ''bob'' None ban_world)
     \<lparr>via = 7, verb = DELETE, path = ''moderation/ban'',
      params = Some (\<lambda>k. map_option (\<lambda>v. [v])
                 ([''type'' \<mapsto> ''messaging'', ''id'' \<mapsto> ''general'', ''target_user_id'' \<mapsto> ''bob''] k)),
      body = VNil\<rparr>"
proof -
  have h: "client sample_channel = Some 7"
    by (simp add: sample_channel_def)
  have t: "''bob'' \<noteq> []" and u: "''admin'' \<noteq> []"
    by simp_all
  have m: "imaps ban_world 0 = [''timeout'' \<mapsto> VInt 3600, ''type'' \<mapsto> VString ''team'']"
    by (simp add: ban_world_def)
  have c: "Type sample_channel = ''messaging''" "ID sample_channel = ''general''"
    by (simp_all add: sample_channel_def)
  show ?thesis
    using ban_unban_requests [OF t u h, where env = "sample_env (\<lambda>cs c. Inr existing_envelope)"
        and options = "Some 0" and soptions = None and w = ban_world]
    by (simp add: m c del: fun_upd_apply)
qed

lemma imap_after_return_err:
  "imap_after r (return_err ch (client_call env m (Some h) p ps d w)) = Some (imaps w r)"
  by (simp add: imap_after_def return_err_def client_call_def Let_def split: sum.splits)

lemma smap_after_return_err:
  "smap_after r (return_err ch (client_call env m (Some h) p ps d w)) = Some (smaps w r)"
  by (simp add: smap_after_def return_err_def client_call_def Let_def split: sum.splits)

lemma imap_after_return_merged:
  "imap_after r (return_merged ch (client_call env m (Some h) p ps d w)) = Some (imaps w r)"
  by (simp add: imap_after_def return_merged_def client_call_def Let_def split: sum.splits)

text \<open>
  C10. When the caller passes a map, at address \<open>r\<close>, to a channel with a client, and
  the call gets past its checks, the call returns and the caller's map is the one it
  passed with the operation's entries written over it: \<open>type\<close>, \<open>id\<close>,
  \<open>target_user_id\<close> and \<open>user_id\<close> for BanUser; \<open>type\<close>, \<open>id\<close> and \<open>target_user_id\<close> for
  UnBanUser; \<open>user\<close> for MarkRead; \<open>created_by\<close> in the data map of \<open>query\<close>. Only
  \<open>query\<close> needs a creator. Whether the transport fails or not makes no difference.
\<close>

theorem caller_maps_mutated:
  assumes "client ch = Some h"
  shows "(targetID \<noteq> [] \<and> userID \<noteq> [] \<longrightarrow>
            imap_after r (BanUser env ch targetID userID (Some r) w)
              = Some ((imaps w r)(''type'' \<mapsto> VString (Type ch), ''id'' \<mapsto> VString (ID ch),
                   ''target_user_id'' \<mapsto> VString targetID, ''user_id'' \<mapsto> VString userID)))
       \<and> (targetID \<noteq> [] \<longrightarrow>
            smap_after r (UnBanUser env ch targetID (Some r) w)
              = Some ((smaps w r)(''type'' \<mapsto> Type ch, ''id'' \<mapsto> ID ch,
                   ''target_user_id'' \<mapsto> targetID)))
       \<and> (userID \<noteq> [] \<longrightarrow>
            imap_after r (MarkRead env ch userID (Some r) w)
              = Some ((imaps w r)(''user'' \<mapsto> VMap [''id'' \<mapsto> VString userID])))
       \<and> (CreatedBy ch = Some u \<longrightarrow>
            imap_after r (query env ch options (Some r) w)
              = Some ((imaps w r)(''created_by'' \<mapsto> VMap [''id'' \<mapsto> VString (User_ID u)])))"
proof -
  have ban: "targetID \<noteq> [] \<and> userID \<noteq> [] \<longrightarrow>
            imap_after r (BanUser env ch targetID userID (Some r) w)
              = Some ((imaps w r)(''type'' \<mapsto> VString (Type ch), ''id'' \<mapsto> VString (ID ch),
                   ''target_user_id'' \<mapsto> VString targetID, ''user_id'' \<mapsto> VString userID))"
    using assms
    by (simp add: BanUser_def Let_def client_Post_def set_imap_def imap_after_return_err)
  have unban: "targetID \<noteq> [] \<longrightarrow>
            smap_after r (UnBanUser env ch targetID (Some r) w)
              = Some ((smaps w r)(''type'' \<mapsto> Type ch, ''id'' \<mapsto> ID ch,
                   ''target_user_id'' \<mapsto> targetID))"
    using assms
    by (simp add: UnBanUser_def Let_def client_Delete_def set_smap_def smap_after_return_err)
  have mark: "userID \<noteq> [] \<longrightarrow>
            imap_after r (MarkRead env ch userID (Some r) w)
              = Some ((imaps w r)(''user'' \<mapsto> VMap [''id'' \<mapsto> VString userID]))"
    using assms
    by (simp add: MarkRead_def Let_def client_Post_def set_imap_def imap_after_return_err)
  have qry: "CreatedBy ch = Some u \<longrightarrow>
            imap_after r (query env ch options (Some r) w)
              = Some ((imaps w r)(''created_by'' \<mapsto> VMap [''id'' \<mapsto> VString (User_ID u)]))"
    using assms
    by (simp add: query_def Let_def client_Post_def set_imap_def imap_after_return_merged)
  from ban unban mark qry show ?thesis by blast
qed

theorem caller_maps_mutated_witness:
  "map_option (\<lambda>m. (m ''type'', m ''timeout'', m ''user_id''))
     (imap_after 0 (BanUser (sample_env (\<lambda>cs c. Inl (RemoteError 503)))
        (sample_channel\<lparr>CreatedBy := None\<rparr>) ''bob'' ''admin'' (Some 0) ban_world))
     = Some (Some (VString ''messaging''), Some (VInt 3600), Some (VString ''admin''))
   \<and> map_option (\<lambda>m. (m ''type'', m ''target_user_id''))
     (smap_after 1 (UnBanUser (sample_env (\<lambda>cs c. Inl (RemoteError 503)))
        (sample_channel\<lparr>CreatedBy := None\<rparr>) ''bob'' (Some 1) ban_world))
     = Some (Some ''messaging'', Some ''bob'')
   \<and> map_option (\<lambda>m. (m ''type'', m ''user'' \<noteq> None))
     (imap_after 0 (MarkRead (sample_env (\<lambda>cs c. Inl (RemoteError 503)))
        (sample_channel\<lparr>CreatedBy := None\<rparr>) ''admin'' (Some 0) ban_world))
     = Some (Some (VString ''team''), True)
   \<and> map_option (\<lambda>m. (m ''type'', m ''created_by'' \<noteq> None))
     (imap_after 0 (query (sample_env (\<lambda>cs c. Inl (RemoteError 503))) sample_channel None (Some 0) ban_world))
     = Some (Some (VString ''team''), True)"
proof -
  let ?E = "sample_env (\<lambda>cs c. Inl (RemoteError 503))"
  let ?n = "sample_channel\<lparr>CreatedBy := None\<rparr>"
  have h: "client sample_channel = Some 7" and hn: "client ?n = Some 7"
    by (simp_all add: sample_channel_def)
  have t: "''bob'' \<noteq> []" and u: "''admin'' \<noteq> []"
    by simp_all
  have cb: "CreatedBy sample_channel = Some \<lparr>User_ID = ''admin''\<rparr>"
    by (simp add: sample_channel_def)
  have m: "imaps ban_world 0 = [''timeout'' \<mapsto> VInt 3600, ''type'' \<mapsto> VString ''team'']"
    "smaps ban_world 1 = [''type'' \<mapsto> ''team'']"
    by (simp_all add: ban_world_def)
  have c: "Type ?n = ''messaging''" "ID ?n = ''general''"
    by (simp_all add: sample_channel_def)
  have ban: "imap_after 0 (BanUser ?E ?n ''bob'' ''admin'' (Some 0) ban_world)
      = Some ((imaps ban_world 0)(''type'' \<mapsto> VString (Type ?n), ''id'' \<mapsto> VString (ID ?n),
           ''target_user_id'' \<mapsto> VString ''bob'', ''user_id'' \<mapsto> VString ''admin''))"
    using caller_maps_mutated [OF hn, where env = ?E and r = 0 and w = ban_world
        and targetID = "''bob''" and userID = "''admin''"] t u
    by blast
  have unban: "smap_after 1 (UnBanUser ?E ?n ''bob'' (Some 1) ban_world)
      = Some ((smaps ban_world 1)(''type'' \<mapsto> Type ?n, ''id'' \<mapsto> ID ?n, ''target_user_id'' \<mapsto> ''bob''))"
    using caller_maps_mutated [OF hn, where env = ?E and r = 1 and w = ban_world
        and targetID = "''bob''"] t
    by blast
  have mark: "imap_after 0 (MarkRead ?E ?n ''admin'' (Some 0) ban_world)
      = Some ((imaps ban_world 0)(''user'' \<mapsto> VMap [''id'' \<mapsto> VString ''admin'']))"
    using caller_maps_mutated [OF hn, where env = ?E and r = 0 and w = ban_world
        and userID = "''admin''"] u
    by blast
  have qry: "imap_after 0 (query ?E sample_channel None (Some 0) ban_world)
      = Some ((imaps ban_world 0)(''created_by'' \<mapsto> VMap [''id'' \<mapsto> VString ''admin'']))"
    using caller_maps_mutated [OF h, where env = ?E and r = 0 and w = ban_world
        and options = None and u = "\<lparr>User_ID = ''admin''\<rparr>"] cb
    by simp
  show ?thesis
    using ban unban mark qry by (simp add: m c)
qed

lemma query_nil: "CreatedBy ch = None \<Longrightarrow> query env ch options dat w = None"
  by (simp add: query_def Let_def split: prod.splits)

lemma query_returns:
  "CreatedBy ch = Some u \<Longrightarrow> client ch = Some h \<Longrightarrow> query env ch options dat w \<noteq> None"
  by (simp add: query_def Let_def client_Post_def client_call_def return_merged_def
      split: prod.splits sum.splits)

lemma query_merges:
  assumes "CreatedBy ch = Some u" and "client ch = Some h"
    and "\<forall>c. Transport env (calls w) c = Inr q"
  shows "\<exists>w' c. query env ch options dat w = Some (None, updateChannel q ch, w')
           \<and> calls w' = calls w @ [c]"
  using assms
  by (simp add: query_def Let_def client_Post_def client_call_def return_merged_def
      new_imap_def set_imap_def split: option.splits prod.splits)


lemma CreateChannel_merges:
  assumes "opt_Type opts \<noteq> []" and "opt_ID opts \<noteq> []" and "userID \<noteq> []"
    and "\<forall>c. Transport env (calls w) c = Inr q"
  shows "\<exists>w' c. CreateChannel env (Some h) opts userID w
             = Some (Some (updateChannel q
                 \<lparr>ID = opt_ID opts, Type = opt_Type opts, CID = [],
                  Config = ZeroConfig env, CreatedBy = Some \<lparr>User_ID = userID\<rparr>,
                  Frozen = False, MemberCount = 0, Members = None, Messages = None,
                  Read = None, CreatedAt = 0, UpdatedAt = 0, LastMessageAt = 0,
                  client = Some h\<rparr>), None, w')
           \<and> calls w' = calls w @ [c]"
proof -
  define ch0 :: "('a, 'b) Channel" where
    "ch0 = \<lparr>ID = opt_ID opts, Type = opt_Type opts, CID = [],
                  Config = ZeroConfig env, CreatedBy = Some \<lparr>User_ID = userID\<rparr>,
                  Frozen = False, MemberCount = 0, Members = None, Messages = None,
                  Read = None, CreatedAt = 0, UpdatedAt = 0, LastMessageAt = 0,
                  client = Some h\<rparr>"
  define w0 where
    "w0 = snd (new_imap [''watch'' \<mapsto> VBool False, ''state'' \<mapsto> VBool True,
                         ''presence'' \<mapsto> VBool False] w)"
  have c0: "calls w0 = calls w"
    by (simp add: w0_def new_imap_def)
  have "CreatedBy ch0 = Some \<lparr>User_ID = userID\<rparr>" and "client ch0 = Some h"
    by (simp_all add: ch0_def)
  with assms(4) c0 obtain w' c where
    q1: "query env ch0 (Some (next_ref w)) (opt_Data opts) w0 = Some (None, updateChannel q ch0, w')"
    and q2: "calls w' = calls w @ [c]"
    using query_merges [of ch0 "\<lparr>User_ID = userID\<rparr>" h env w0 q "Some (next_ref w)" "opt_Data opts"]
    by auto
  have "CreateChannel env (Some h) opts userID w = Some (Some (updateChannel q ch0), None, w')"
    using assms(1-3) q1 by (simp add: CreateChannel_def new_imap_def ch0_def w0_def)
  with q2 show ?thesis
    unfolding ch0_def by blast
qed

text \<open>
  C9. \<open>query\<close>, and \<open>refresh\<close> through it, panic when the channel's CreatedBy is nil, and
  do not panic when CreatedBy and the client are both non-nil. A channel with a nil
  creator is reachable: when the transport answers the next request with an envelope
  whose channel object has a nil creator, CreateChannel with valid arguments and a
  client makes one request and returns, without error, the channel it built merged
  with that envelope; this channel has the client passed in and a nil creator, and
  \<open>refresh\<close> on it panics.
\<close>

theorem query_nil_CreatedBy_panics:
  "(CreatedBy ch = None \<longrightarrow> query env ch options dat w = None \<and> refresh env ch w = None)
   \<and> (CreatedBy ch \<noteq> None \<and> client ch \<noteq> None
        \<longrightarrow> query env ch options dat w \<noteq> None \<and> refresh env ch w \<noteq> None)
   \<and> (opt_Type opts \<noteq> [] \<and> opt_ID opts \<noteq> [] \<and> userID \<noteq> []
        \<and> (\<forall>c. Transport env (calls w) c = Inr q) \<and> q_Channel q = Some c0 \<and> CreatedBy c0 = None
        \<longrightarrow> (\<exists>ch1 w1 c. CreateChannel env (Some h) opts userID w = Some (Some ch1, None, w1)
               \<and> calls w1 = calls w @ [c]
               \<and> ch1 = updateChannel q
                   \<lparr>ID = opt_ID opts, Type = opt_Type opts, CID = [],
                  Config = ZeroConfig env, CreatedBy = Some \<lparr>User_ID = userID\<rparr>,
                  Frozen = False, MemberCount = 0, Members = None, Messages = None,
                  Read = None, CreatedAt = 0, UpdatedAt = 0, LastMessageAt = 0,
                  client = Some h\<rparr>
               \<and> CreatedBy ch1 = None \<and> client ch1 = Some h
               \<and> refresh env ch1 w1 = None))"
proof -
  have nil: "CreatedBy ch = None \<longrightarrow> query env ch options dat w = None \<and> refresh env ch w = None"
    by (simp add: refresh_def new_imap_def query_nil)
  have ok: "CreatedBy ch \<noteq> None \<and> client ch \<noteq> None
        \<longrightarrow> query env ch options dat w \<noteq> None \<and> refresh env ch w \<noteq> None"
  proof
    assume "CreatedBy ch \<noteq> None \<and> client ch \<noteq> None"
    then obtain u h' where "CreatedBy ch = Some u" and "client ch = Some h'" by auto
    then show "query env ch options dat w \<noteq> None \<and> refresh env ch w \<noteq> None"
      by (simp add: refresh_def new_imap_def query_returns)
  qed
  have reach: "opt_Type opts \<noteq> [] \<and> opt_ID opts \<noteq> [] \<and> userID \<noteq> []
        \<and> (\<forall>c. Transport env (calls w) c = Inr q) \<and> q_Channel q = Some c0 \<and> CreatedBy c0 = None
        \<longrightarrow> (\<exists>ch1 w1 c. CreateChannel env (Some h) opts userID w = Some (Some ch1, None, w1)
               \<and> calls w1 = calls w @ [c]
               \<and> ch1 = updateChannel q
                   \<lparr>ID = opt_ID opts, Type = opt_Type opts, CID = [],
                  Config = ZeroConfig env, CreatedBy = Some \<lparr>User_ID = userID\<rparr>,
                  Frozen = False, MemberCount = 0, Members = None, Messages = None,
                  Read = None, CreatedAt = 0, UpdatedAt = 0, LastMessageAt = 0,
                  client = Some h\<rparr>
               \<and> CreatedBy ch1 = None \<and> client ch1 = Some h
               \<and> refresh env ch1 w1 = None)"
  proof
    assume a: "opt_Type opts \<noteq> [] \<and> opt_ID opts \<noteq> [] \<and> userID \<noteq> []
        \<and> (\<forall>c. Transport env (calls w) c = Inr q) \<and> q_Channel q = Some c0 \<and> CreatedBy c0 = None"
    define ch1 :: "('a, 'b) Channel" where
      "ch1 = updateChannel q
                   \<lparr>ID = opt_ID opts, Type = opt_Type opts, CID = [],
                  Config = ZeroConfig env, CreatedBy = Some \<lparr>User_ID = userID\<rparr>,
                  Frozen = False, MemberCount = 0, Members = None, Messages = None,
                  Read = None, CreatedAt = 0, UpdatedAt = 0, LastMessageAt = 0,
                  client = Some h\<rparr>"
    from a obtain w1 c where
      r: "CreateChannel env (Some h) opts userID w = Some (Some ch1, None, w1)"
      and l: "calls w1 = calls w @ [c]"
      using CreateChannel_merges [of opts userID env w q h]
      unfolding ch1_def by blast
    have f: "CreatedBy ch1 = None \<and> client ch1 = Some h"
      using a by (simp add: ch1_def updateChannel_def Let_def)
    then have "refresh env ch1 w1 = None"
      by (simp add: refresh_def new_imap_def query_nil)
    with r l f show "\<exists>ch1 w1 c. CreateChannel env (Some h) opts userID w = Some (Some ch1, None, w1)
               \<and> calls w1 = calls w @ [c]
               \<and> ch1 = updateChannel q
                   \<lparr>ID = opt_ID opts, Type = opt_Type opts, CID = [],
                  Config = ZeroConfig env, CreatedBy = Some \<lparr>User_ID = userID\<rparr>,
                  Frozen = False, MemberCount = 0, Members = None, Messages = None,
                  Read = None, CreatedAt = 0, UpdatedAt = 0, LastMessageAt = 0,
                  client = Some h\<rparr>
               \<and> CreatedBy ch1 = None \<and> client ch1 = Some h
               \<and> refresh env ch1 w1 = None"
      unfolding ch1_def by blast
  qed
  from nil ok reach show ?thesis by blast
qed

theorem query_nil_CreatedBy_panics_witness:
  "query (sample_env (\<lambda>cs c. Inr sample_envelope)) (sample_channel\<lparr>CreatedBy := None\<rparr>) None None sample_world = None
   \<and> refresh (sample_env (\<lambda>cs c. Inr sample_envelope)) (sample_channel\<lparr>CreatedBy := None\<rparr>) sample_world = None
   \<and> query (sample_env (\<lambda>cs c. Inr sample_envelope)) sample_channel None None sample_world \<noteq> None
   \<and> refresh (sample_env (\<lambda>cs c. Inr sample_envelope)) sample_channel sample_world \<noteq> None
   \<and> (case CreateChannel (sample_env (\<lambda>cs c. Inr sample_envelope)) (Some 7)
             \<lparr>opt_ID = ''general'', opt_Type = ''messaging'', opt_Data = None\<rparr> ''admin'' sample_world of
        Some (Some ch1, None, w1) \<Rightarrow>
          length (calls w1) = 1 \<and> CreatedBy ch1 = None \<and> client ch1 = Some 7
          \<and> Frozen ch1 \<and> UpdatedAt ch1 = 30
          \<and> refresh (sample_env (\<lambda>cs c. Inr sample_envelope)) ch1 w1 = None
      | _ \<Rightarrow> False)"
proof -
  let ?E = "sample_env (\<lambda>cs c. Inr sample_envelope)"
  let ?o = "\<lparr>opt_ID = ''general'', opt_Type = ''messaging'', opt_Data = None\<rparr>"
  have a: "CreatedBy (sample_channel\<lparr>CreatedBy := None\<rparr>) = None"
    by simp
  have b: "CreatedBy sample_channel \<noteq> None \<and> client sample_channel \<noteq> None"
    by (simp add: sample_channel_def)
  have c: "opt_Type ?o \<noteq> [] \<and> opt_ID ?o \<noteq> [] \<and> ''admin'' \<noteq> []
        \<and> (\<forall>c. Transport ?E (calls sample_world) c = Inr sample_envelope)
        \<and> q_Channel sample_envelope = Some sample_snapshot \<and> CreatedBy sample_snapshot = None"
    by (simp add: sample_env_def sample_envelope_def sample_snapshot_def)
  from a have 1: "query ?E (sample_channel\<lparr>CreatedBy := None\<rparr>) None None sample_world = None
      \<and> refresh ?E (sample_channel\<lparr>CreatedBy := None\<rparr>) sample_world = None"
    using query_nil_CreatedBy_panics [where ch = "sample_channel\<lparr>CreatedBy := None\<rparr>" and env = ?E
        and options = None and dat = None and w = sample_world]
    by blast
  from b have 2: "query ?E sample_channel None None sample_world \<noteq> None
      \<and> refresh ?E sample_channel sample_world \<noteq> None"
    using query_nil_CreatedBy_panics [where ch = sample_channel and env = ?E
        and options = None and dat = None and w = sample_world]
    by blast
  from c obtain ch1 w1 c1 where
    r: "CreateChannel ?E (Some 7) ?o ''admin'' sample_world = Some (Some ch1, None, w1)"
    and l: "calls w1 = calls sample_world @ [c1]"
    and m: "ch1 = updateChannel sample_envelope
              \<lparr>ID = opt_ID ?o, Type = opt_Type ?o, CID = [],
               Config = ZeroConfig ?E, CreatedBy = Some \<lparr>User_ID = ''admin''\<rparr>,
               Frozen = False, MemberCount = 0, Members = None, Messages = None,
               Read = None, CreatedAt = 0, UpdatedAt = 0, LastMessageAt = 0,
               client = Some 7\<rparr>"
    and f: "CreatedBy ch1 = None \<and> client ch1 = Some 7"
    and p: "refresh ?E ch1 w1 = None"
    using query_nil_CreatedBy_panics [where opts = ?o and userID = "''admin''" and env = ?E
        and q = sample_envelope and ?c0.0 = sample_snapshot and h = 7 and w = sample_world]
    by blast
  from m have g: "Frozen ch1 \<and> UpdatedAt ch1 = 30"
    by (simp add: updateChannel_def sample_envelope_def sample_snapshot_def)
  from l have n: "length (calls w1) = 1"
    by (simp add: sample_world_def)
  from r n f g p have 3: "(case CreateChannel ?E (Some 7) ?o ''admin'' sample_world of
        Some (Some ch1, None, w1) \<Rightarrow>
          length (calls w1) = 1 \<and> CreatedBy ch1 = None \<and> client ch1 = Some 7
          \<and> Frozen ch1 \<and> UpdatedAt ch1 = 30
          \<and> refresh ?E ch1 w1 = None
      | _ \<Rightarrow> False)"
    by simp
  from 1 2 3 show ?thesis by simp
qed




end
